theory Spec2Isabelle
  imports Complex_Main "HOL-Library.Sublist"
begin

section \<open>The OpenAI handler: data model\<close>

text \<open>
  The development embeds \<^verbatim>\<open>openai_handler.py\<close>. Python's exceptions are values of
  \<open>error\<close>; a function that may raise returns \<open>error + 'a\<close>, with \<open>Inl\<close> the exception.
  \<open>InvalidRequestError\<close> carries the \<^verbatim>\<open>user_message\<close> of \<^verbatim>\<open>openai.error.InvalidRequestError\<close>;
  \<open>ServiceError\<close> stands for every other exception that a (retried) submission may raise;
  \<open>Exception\<close> carries the message of a plain \<^verbatim>\<open>raise Exception(...)\<close>.
\<close>

datatype error =
    InvalidRequestError string
  | ServiceError string
  | Exception string
  | ValueError
  | ZeroDivisionError
  | TypeError
  | IndexError
  | KeyError string

text \<open>
  The payload of \<^verbatim>\<open>openai.Completion.create\<close>: \<^verbatim>\<open>comp['choices']\<close> is the ordered list of
  choices, of which the code reads only \<^verbatim>\<open>c['text']\<close>, and \<^verbatim>\<open>comp['usage']\<close> holds the three
  token counters. A payload is a non-empty dictionary, hence truthy in \<^verbatim>\<open>if not completion\<close>:
  only \<^verbatim>\<open>None\<close> takes that branch.
\<close>

record token_usage =
  prompt_tokens :: int
  completion_tokens :: int
  total_tokens :: int

record completion =
  choices :: "string list"
  usage :: token_usage

text \<open>The fields set by \<^verbatim>\<open>OpenAIHandler.__init__\<close>.\<close>

record handler =
  default_model :: string
  rate_limit :: int
  max_batch_size :: int
  default_max_tokens :: int

definition handler_init :: handler where
  "handler_init =
     \<lparr>default_model = ''text-davinci-002'', rate_limit = 60,
      max_batch_size = 20, default_max_tokens = 20\<rparr>"

text \<open>
  \<^verbatim>\<open>_submit_completion\<close> is \<^verbatim>\<open>openai.Completion.create\<close> under the decorator
  \<^verbatim>\<open>retry_with_exponential_backoff\<close> of \<^verbatim>\<open>helpers.py\<close>; both live outside the handler, so
  the submitter is a parameter. Within one call of \<^verbatim>\<open>_completion\<close> the model name, token
  limit, temperature, key and args are fixed, which leaves the prompts as the argument.
  The first argument numbers the submissions of one call (\<open>0\<close> is the full-size probe,
  \<open>Suc i\<close> is batch \<open>i\<close>), so that the service may answer the same prompts differently
  on different submissions.
\<close>

type_synonym submitter = "nat \<Rightarrow> string list \<Rightarrow> error + completion"

section \<open>Python string and list primitives\<close>

definition newline :: char where
  "newline = CHR 0x0A"

text \<open>\<^verbatim>\<open>s.strip(chars)\<close>: drop the leading and the trailing characters that occur in \<open>chars\<close>.\<close>

definition py_strip :: "string \<Rightarrow> string \<Rightarrow> string" where
  "py_strip chars s =
     rev (dropWhile (\<lambda>c. c \<in> set chars) (rev (dropWhile (\<lambda>c. c \<in> set chars) s)))"

text \<open>
  \<^verbatim>\<open>xs[lo:hi]\<close> with Python's treatment of negative and out-of-range bounds: a negative
  bound counts from the end, and both bounds are clamped to \<open>0 .. len(xs)\<close>.
\<close>

definition clamp_index :: "nat \<Rightarrow> int \<Rightarrow> nat" where
  "clamp_index n i = (if i < 0 then nat (max (i + int n) 0) else min (nat i) n)"

definition py_slice :: "'a list \<Rightarrow> int \<Rightarrow> int \<Rightarrow> 'a list" where
  "py_slice xs lo hi =
     (let l = clamp_index (length xs) lo; h = clamp_index (length xs) hi
      in take (h - l) (drop l xs))"

text \<open>\<^verbatim>\<open>sub in s\<close> on strings: \<open>sub\<close> occurs in \<open>s\<close> as a contiguous piece.\<close>

fun py_in :: "string \<Rightarrow> string \<Rightarrow> bool" where
  "py_in sub [] = (sub = [])"
| "py_in sub (c # cs) = (prefix sub (c # cs) \<or> py_in sub cs)"

text \<open>\<^verbatim>\<open>s.find(sub)\<close>: the index of the first occurrence of \<open>sub\<close>, or \<open>-1\<close>.\<close>

fun find_from :: "string \<Rightarrow> string \<Rightarrow> nat \<Rightarrow> int" where
  "find_from sub [] pos = (if sub = [] then int pos else - 1)"
| "find_from sub (c # cs) pos =
     (if prefix sub (c # cs) then int pos else find_from sub cs (Suc pos))"

definition py_find :: "string \<Rightarrow> string \<Rightarrow> int" where
  "py_find s sub = find_from sub s 0"

text \<open>
  \<^verbatim>\<open>s.split(sep)\<close> for a non-empty separator (Python raises \<open>ValueError\<close> for an empty one):
  the pieces between the occurrences of \<open>sep\<close>, found from left to right. After a match
  at \<open>c # cs\<close> the scan resumes \<open>length sep\<close> characters further, that is at
  \<open>drop (length sep - 1) cs\<close>.
\<close>

fun split_scan :: "string \<Rightarrow> string \<Rightarrow> string \<Rightarrow> string list" where
  "split_scan sep cur [] = [rev cur]"
| "split_scan sep cur (c # cs) =
     (if prefix sep (c # cs) then rev cur # split_scan sep [] (drop (length sep - 1) cs)
      else split_scan sep (c # cur) cs)"

definition py_split :: "string \<Rightarrow> string \<Rightarrow> error + string list" where
  "py_split s sep = (if sep = [] then Inl ValueError else Inr (split_scan sep [] s))"

text \<open>
  \<^verbatim>\<open>int(s)\<close> on text: surrounding whitespace is dropped, then an optional sign and a
  non-empty run of decimal digits is read, in which single underscores may separate
  digits; anything else raises \<open>ValueError\<close>. Messages are modelled as ASCII text.
\<close>

definition is_digit :: "char \<Rightarrow> bool" where
  "is_digit c = (48 \<le> (of_char c :: nat) \<and> (of_char c :: nat) \<le> 57)"

definition digit_value :: "char \<Rightarrow> nat" where
  "digit_value c = of_char c - 48"

definition whitespace :: string where
  "whitespace = [CHR 0x20, CHR 0x09, CHR 0x0A, CHR 0x0B, CHR 0x0C, CHR 0x0D]"

fun parse_digits :: "string \<Rightarrow> nat \<Rightarrow> nat option" where
  "parse_digits [] acc = Some acc"
| "parse_digits (c # cs) acc =
     (if is_digit c then parse_digits cs (10 * acc + digit_value c)
      else if c = CHR ''_'' \<and> (case cs of [] \<Rightarrow> False | d # _ \<Rightarrow> is_digit d)
      then parse_digits cs acc
      else None)"

definition parse_unsigned :: "string \<Rightarrow> nat option" where
  "parse_unsigned s =
     (case s of [] \<Rightarrow> None | d # _ \<Rightarrow> if is_digit d then parse_digits s 0 else None)"

definition py_int :: "string \<Rightarrow> error + int" where
  "py_int s =
     (let t = py_strip whitespace s;
          r = (case t of
                 [] \<Rightarrow> None
               | c # cs \<Rightarrow>
                   if c = CHR ''-'' then map_option (\<lambda>n. - int n) (parse_unsigned cs)
                   else if c = CHR ''+'' then map_option int (parse_unsigned cs)
                   else map_option int (parse_unsigned t))
      in case r of None \<Rightarrow> Inl ValueError | Some v \<Rightarrow> Inr v)"

section \<open>The completion engine\<close>

text \<open>\<^verbatim>\<open>_tidy\<close>: \<^verbatim>\<open>[c['text'].strip('\n').strip('') for c in comp['choices']]\<close>.\<close>

definition tidy :: "completion \<Rightarrow> string list" where
  "tidy cmpl = map (\<lambda>t. py_strip [] (py_strip [newline] t)) (choices cmpl)"

text \<open>
  \<^verbatim>\<open>range(math.ceil(len(prompts) / max_batch_size))\<close>. The division raises for a zero
  batch size; a ceiling that is not positive gives an empty range. The quotient is taken
  exactly: Python's float quotient agrees with it for every list length below \<open>2^53\<close> and
  every batch size within the range of a float.
\<close>

definition batch_count :: "nat \<Rightarrow> int \<Rightarrow> error + nat" where
  "batch_count n b =
     (if b = 0 then Inl ZeroDivisionError else Inr (nat (- ((- int n) div b))))"

text \<open>\<^verbatim>\<open>prompts[i * max_batch_size:(i + 1) * max_batch_size]\<close>.\<close>

definition batch_slice :: "'a list \<Rightarrow> int \<Rightarrow> nat \<Rightarrow> 'a list" where
  "batch_slice prompts b i = py_slice prompts (int i * b) ((int i + 1) * b)"

text \<open>The batches that the two loops of \<^verbatim>\<open>_completion\<close> form, in the order of the loop.\<close>

definition planned_batches :: "'a list \<Rightarrow> int \<Rightarrow> error + 'a list list" where
  "planned_batches prompts b =
     (case batch_count (length prompts) b of
        Inl e \<Rightarrow> Inl e
      | Inr k \<Rightarrow> Inr (map (batch_slice prompts b) [0..<k]))"

text \<open>
  The body of the sequential loop merges a batch's payload into the accumulated one:
  the choices are appended and the three usage counters are added.
\<close>

definition merge_sequential :: "completion option \<Rightarrow> completion \<Rightarrow> completion" where
  "merge_sequential acc partial =
     (case acc of
        None \<Rightarrow> partial
      | Some c \<Rightarrow>
          \<lparr>choices = choices c @ choices partial,
           usage = \<lparr>prompt_tokens = prompt_tokens (usage c) + prompt_tokens (usage partial),
                    completion_tokens =
                      completion_tokens (usage c) + completion_tokens (usage partial),
                    total_tokens = total_tokens (usage c) + total_tokens (usage partial)\<rparr>\<rparr>)"

text \<open>
  The sequential loop (\<^verbatim>\<open>if not parallel\<close>), over the indices of \<^verbatim>\<open>range(...)\<close>: a submission
  that raises ends the call; the value is the variable \<^verbatim>\<open>completion\<close> after the loop.
\<close>

fun sequential_loop ::
  "submitter \<Rightarrow> string list \<Rightarrow> int \<Rightarrow> nat list \<Rightarrow> completion option \<Rightarrow> error + completion option"
where
  "sequential_loop submit prompts b [] acc = Inr acc"
| "sequential_loop submit prompts b (i # is) acc =
     (case submit (Suc i) (batch_slice prompts b i) of
        Inl e \<Rightarrow> Inl e
      | Inr partial \<Rightarrow> sequential_loop submit prompts b is (Some (merge_sequential acc partial)))"

text \<open>
  The concurrent branch first submits every batch to the pool; leaving the \<^verbatim>\<open>with\<close> block
  waits for all of them. A future holds either the payload or the exception of its
  submission, so the list of promises is the list of these outcomes, in submission order.
\<close>

definition submit_all :: "submitter \<Rightarrow> string list \<Rightarrow> int \<Rightarrow> nat list \<Rightarrow> (error + completion) list" where
  "submit_all submit prompts b is = map (\<lambda>i. submit (Suc i) (batch_slice prompts b i)) is"

text \<open>
  The collecting loop of the concurrent branch: \<^verbatim>\<open>result()\<close> re-raises the exception of a
  failed future; otherwise only the choices are appended to the first payload.
\<close>

definition merge_concurrent :: "completion option \<Rightarrow> completion \<Rightarrow> completion" where
  "merge_concurrent acc r =
     (case acc of
        None \<Rightarrow> r
      | Some c \<Rightarrow> c\<lparr>choices := choices c @ choices r\<rparr>)"

fun collect_promises :: "(error + completion) list \<Rightarrow> completion option \<Rightarrow> error + completion option"
where
  "collect_promises [] acc = Inr acc"
| "collect_promises (p # ps) acc =
     (case p of
        Inl e \<Rightarrow> Inl e
      | Inr r \<Rightarrow> collect_promises ps (Some (merge_concurrent acc r)))"

text \<open>
  The \<^verbatim>\<open>except openai.error.InvalidRequestError\<close> block of \<^verbatim>\<open>_completion\<close>, on the
  \<^verbatim>\<open>user_message\<close> of the rejection: the maximum batch size that the message announces, or
  \<^verbatim>\<open>self.max_batch_size\<close> when the message does not have the expected wording.
\<close>

definition discover_batch_size :: "handler \<Rightarrow> string \<Rightarrow> error + int" where
  "discover_batch_size self e =
     (if py_in ''you can currently request up to at most a total of'' e then
        (let pattern = ''a total of'';
             rest = py_slice e (py_find e pattern + int (length pattern)) (int (length e))
         in case py_split rest '').'' of
              Inl err \<Rightarrow> Inl err
            | Inr [] \<Rightarrow> Inl IndexError
            | Inr (x # _) \<Rightarrow> py_int x)
      else Inr (max_batch_size self))"

text \<open>
  The part of \<^verbatim>\<open>_completion\<close> between the discovery and the final \<^verbatim>\<open>_tidy\<close>: the value of
  the variable \<^verbatim>\<open>completion\<close> once the chosen branch has run.
\<close>

definition assemble ::
  "submitter \<Rightarrow> string list \<Rightarrow> bool \<Rightarrow> int \<Rightarrow> error + completion option" where
  "assemble submit prompts par b =
     (case batch_count (length prompts) b of
        Inl err \<Rightarrow> Inl err
      | Inr k \<Rightarrow>
          if \<not> par then sequential_loop submit prompts b [0..<k] None
          else collect_promises (submit_all submit prompts b [0..<k]) None)"

text \<open>
  \<^verbatim>\<open>_completion\<close>. The probe with all prompts returns at once when it succeeds; only an
  \<open>InvalidRequestError\<close> is caught, every other exception of the probe propagates.
  \<^verbatim>\<open>_tidy(None)\<close>, reached when no batch was formed, raises \<open>TypeError\<close>.
\<close>

definition run_completion ::
  "handler \<Rightarrow> submitter \<Rightarrow> string list \<Rightarrow> bool \<Rightarrow> error + string list" where
  "run_completion self submit prompts par =
     (case submit 0 prompts of
        Inr c \<Rightarrow> Inr (tidy c)
      | Inl err \<Rightarrow>
          (case err of
             InvalidRequestError e \<Rightarrow>
               (case discover_batch_size self e of
                  Inl err' \<Rightarrow> Inl err'
                | Inr b \<Rightarrow>
                    (case assemble submit prompts par b of
                       Inl err' \<Rightarrow> Inl err'
                     | Inr None \<Rightarrow> Inl TypeError
                     | Inr (Some c) \<Rightarrow> Inr (tidy c)))
           | _ \<Rightarrow> Inl err))"

section \<open>Model creation and prediction\<close>

text \<open>
  The \<^verbatim>\<open>USING\<close> arguments of a model are a dictionary from names to values, which are
  modelled as text. \<^verbatim>\<open>args.get(k, False)\<close> in a condition is true for a present, non-empty
  value.
\<close>

type_synonym args = "string \<rightharpoonup> string"

definition truthy :: "string option \<Rightarrow> bool" where
  "truthy v = (case v of None \<Rightarrow> False | Some s \<Rightarrow> s \<noteq> [])"

text \<open>
  \<^verbatim>\<open>create_validation\<close>; \<^verbatim>\<open>k not in args\<close> is \<open>args k = None\<close>. The outer dictionary holds the
  \<^verbatim>\<open>USING\<close> arguments under the key \<^verbatim>\<open>using\<close>.
\<close>

definition create_validation :: "string \<Rightarrow> (string \<rightharpoonup> args) \<Rightarrow> error + unit" where
  "create_validation target a =
     (case a ''using'' of
        None \<Rightarrow>
          Inl (Exception
            ''OpenAI engine requires a USING clause! Refer to its documentation for more details.'')
      | Some u \<Rightarrow>
          if u ''question_column'' = None \<and> u ''prompt_template'' = None then
            Inl (Exception ''Either of `question_column` or `prompt_template` are required.'')
          else if u ''prompt_template'' \<noteq> None \<and> u ''question_column'' \<noteq> None then
            Inl (Exception
              ''Please provide either 1) a `prompt_template` or 2) a `question_column` and an optional `context_column`, but not both.'')
          else Inr ())"

text \<open>
  \<^verbatim>\<open>_get_api_key\<close> reads, in this order, the model's args, the engine's connection args, the
  environment variable and the configuration file, which are gathered in a record.
\<close>

record environment =
  connection_args :: args
  env_api_key :: "string option"
  config_openai :: args

definition get_api_key :: "environment \<Rightarrow> args \<Rightarrow> error + string" where
  "get_api_key env a =
     (case a ''api_key'' of
        Some k \<Rightarrow> Inr k
      | None \<Rightarrow>
          (case connection_args env ''api_key'' of
             Some k \<Rightarrow> Inr k
           | None \<Rightarrow>
               (case env_api_key env of
                  Some k \<Rightarrow> Inr k
                | None \<Rightarrow>
                    (case config_openai env ''api_key'' of
                       Some k \<Rightarrow> Inr k
                     | None \<Rightarrow>
                         Inl (Exception
                           ''Missing API key. Either re-create this ML_ENGINE with your key in the `api_key` parameter,             or re-create this model and pass the API key it with `USING` syntax.'')))))"

subsection \<open>The table of input rows\<close>

text \<open>
  A cell of the dataframe is text or an integer. A dataframe has a number of rows and an
  ordered list of named columns, each holding one cell per row.
\<close>

datatype pyval = PStr string | PInt int

record dataframe =
  nrows :: nat
  cols :: "(string \<times> pyval list) list"

text \<open>\<^verbatim>\<open>name in df.columns\<close>, \<^verbatim>\<open>df[name]\<close> (which raises \<open>KeyError\<close>) and \<^verbatim>\<open>df[name] = series\<close>.\<close>

definition has_col :: "dataframe \<Rightarrow> string \<Rightarrow> bool" where
  "has_col df name = (map_of (cols df) name \<noteq> None)"

definition get_col :: "dataframe \<Rightarrow> string \<Rightarrow> error + pyval list" where
  "get_col df name =
     (case map_of (cols df) name of None \<Rightarrow> Inl (KeyError name) | Some c \<Rightarrow> Inr c)"

definition set_col :: "dataframe \<Rightarrow> string \<Rightarrow> pyval list \<Rightarrow> dataframe" where
  "set_col df name series =
     (if has_col df name
      then df\<lparr>cols := map (\<lambda>(k, v). if k = name then (k, series) else (k, v)) (cols df)\<rparr>
      else df\<lparr>cols := cols df @ [(name, series)]\<rparr>)"

text \<open>\<^verbatim>\<open>str(x)\<close> of a cell: text is itself, an integer is its decimal numeral.\<close>

definition digit_char :: "nat \<Rightarrow> char" where
  "digit_char d = char_of (48 + d)"

fun nat_digits :: "nat \<Rightarrow> string" where
  "nat_digits n = (if n < 10 then [digit_char n] else nat_digits (n div 10) @ [digit_char (n mod 10)])"

definition py_str :: "pyval \<Rightarrow> string" where
  "py_str v =
     (case v of
        PStr s \<Rightarrow> s
      | PInt n \<Rightarrow> if n < 0 then CHR ''-'' # nat_digits (nat (- n)) else nat_digits (nat n))"

text \<open>
  \<^verbatim>\<open>x + y\<close> on cells: text is concatenated with text, integers are added, and text with an
  integer raises \<open>TypeError\<close>. An operation on whole series raises at the first row that does.
\<close>

definition py_add :: "pyval \<Rightarrow> pyval \<Rightarrow> error + pyval" where
  "py_add x y =
     (case (x, y) of
        (PStr a, PStr b) \<Rightarrow> Inr (PStr (a @ b))
      | (PInt a, PInt b) \<Rightarrow> Inr (PInt (a + b))
      | _ \<Rightarrow> Inl TypeError)"

fun map_raising :: "('a \<Rightarrow> error + 'b) \<Rightarrow> 'a list \<Rightarrow> error + 'b list" where
  "map_raising f [] = Inr []"
| "map_raising f (x # xs) =
     (case f x of
        Inl e \<Rightarrow> Inl e
      | Inr y \<Rightarrow> (case map_raising f xs of Inl e \<Rightarrow> Inl e | Inr ys \<Rightarrow> Inr (y # ys)))"

definition series_add :: "pyval list \<Rightarrow> pyval list \<Rightarrow> error + pyval list" where
  "series_add xs ys = map_raising (\<lambda>(x, y). py_add x y) (zip xs ys)"

subsection \<open>Compiling and rendering a prompt template\<close>

text \<open>
  \<^verbatim>\<open>re.finditer("{{(.*?)}}", s)\<close>. After an opening \<^verbatim>\<open>{{\<close> the lazy group takes the fewest
  characters, none of them a newline, up to the next \<^verbatim>\<open>}}\<close>: \<open>match_close\<close> gives the length of
  the group. \<open>finditer\<close> gives the spans \<open>(start, end)\<close> of the matches from left to right:
  where no match starts at a position the search moves one character on, and after a match
  it resumes at the end of the match.
\<close>

fun match_close :: "string \<Rightarrow> nat option" where
  "match_close [] = None"
| "match_close (c # cs) =
     (if prefix ''}}'' (c # cs) then Some 0
      else if c = newline then None
      else map_option Suc (match_close cs))"

fun finditer :: "nat \<Rightarrow> string \<Rightarrow> (nat \<times> nat) list" where
  "finditer pos [] = []"
| "finditer pos (c # cs) =
     (if prefix ''{{'' (c # cs) then
        (case match_close (drop 1 cs) of
           Some n \<Rightarrow> (pos, pos + n + 4) # finditer (pos + n + 4) (drop (n + 3) cs)
         | None \<Rightarrow> finditer (Suc pos) cs)
      else finditer (Suc pos) cs)"

text \<open>
  Lines 96 to 110 of \<^verbatim>\<open>predict\<close>: the literal segments \<^verbatim>\<open>template\<close> and the column names
  \<^verbatim>\<open>columns\<close> of a template. \<^verbatim>\<open>matches[0]\<close> raises \<open>IndexError\<close> when there is no placeholder.
  A column name is the matched text without its braces.
\<close>

definition compile_template :: "string \<Rightarrow> error + (string list \<times> string list)" where
  "compile_template base_template =
     (case finditer 0 base_template of
        [] \<Rightarrow> Inl IndexError
      | m # ms \<Rightarrow>
          (let matches = m # ms;
               first_span = fst m;
               last_span = snd (last matches);
               columns = map (\<lambda>(s, e). filter (\<lambda>x. x \<noteq> CHR ''{'' \<and> x \<noteq> CHR ''}'')
                                 (py_slice base_template (int s) (int e))) matches;
               spans = concat (map (\<lambda>(s, e). [s, e]) matches);
               spans1 = py_slice spans 1 (- 1);
               template = map (\<lambda>(s, e). py_slice base_template (int s) (int e))
                            (zip spans1 (py_slice spans1 1 (int (length spans1))))
           in Inr ([py_slice base_template 0 (int first_span)] @ template
                     @ [py_slice base_template (int last_span) (int (length base_template))],
                   columns)))"

text \<open>
  One iteration of the loop of lines 113 to 119: the prompt column becomes itself with the
  segment appended to every row, plus the referenced column where there is one. The column
  is read before the prompt column is touched, and the assignment is the last step, so an
  iteration that raises leaves the dataframe as it was.
\<close>

definition render_step :: "dataframe \<Rightarrow> string \<Rightarrow> string option \<Rightarrow> error + dataframe" where
  "render_step df atom column =
     (case column of
        Some name \<Rightarrow>
          (case get_col df name of
             Inl e \<Rightarrow> Inl e
           | Inr col \<Rightarrow>
               (case get_col df ''__mdb_prompt'' of
                  Inl e \<Rightarrow> Inl e
                | Inr cur \<Rightarrow>
                    (case map_raising (\<lambda>x. py_add x (PStr atom)) cur of
                       Inl e \<Rightarrow> Inl e
                     | Inr s1 \<Rightarrow>
                         (case series_add s1 col of
                            Inl e \<Rightarrow> Inl e
                          | Inr s2 \<Rightarrow> Inr (set_col df ''__mdb_prompt'' s2)))))
      | None \<Rightarrow>
          (case get_col df ''__mdb_prompt'' of
             Inl e \<Rightarrow> Inl e
           | Inr cur \<Rightarrow>
               (case map_raising (\<lambda>x. py_add x (PStr atom)) cur of
                  Inl e \<Rightarrow> Inl e
                | Inr s1 \<Rightarrow> Inr (set_col df ''__mdb_prompt'' s1))))"

text \<open>
  The loop over \<^verbatim>\<open>range(len(template))\<close>. The dataframe is the caller's object, mutated in
  place: the result pairs the dataframe as the loop leaves it with the exception, if any.
\<close>

fun render_loop ::
  "string list \<Rightarrow> string list \<Rightarrow> nat list \<Rightarrow> dataframe \<Rightarrow> dataframe \<times> (error + unit)"
where
  "render_loop template columns [] df = (df, Inr ())"
| "render_loop template columns (i # is) df =
     (case render_step df (template ! i)
             (if i < length columns then Some (columns ! i) else None) of
        Inl e \<Rightarrow> (df, Inl e)
      | Inr df' \<Rightarrow> render_loop template columns is df')"

text \<open>
  \<^verbatim>\<open>list(df['__mdb_prompt'])\<close> as the prompts of the request. The prompt column starts as
  empty text and only has text appended, so each cell is text; the model has \<open>TypeError\<close> for
  any other cell.
\<close>

definition as_text :: "pyval \<Rightarrow> error + string" where
  "as_text v = (case v of PStr s \<Rightarrow> Inr s | PInt _ \<Rightarrow> Inl TypeError)"

text \<open>Lines 112 to 120: the prompt column is created, filled by the loop, and read back.\<close>

definition render_template ::
  "string list \<Rightarrow> string list \<Rightarrow> dataframe \<Rightarrow> dataframe \<times> (error + string list)" where
  "render_template template columns df =
     (case render_loop template columns [0..<length template]
             (set_col df ''__mdb_prompt'' (replicate (nrows df) (PStr []))) of
        (df', Inl e) \<Rightarrow> (df', Inl e)
      | (df', Inr _) \<Rightarrow>
          (case get_col df' ''__mdb_prompt'' of
             Inl e \<Rightarrow> (df', Inl e)
           | Inr series \<Rightarrow> (df', map_raising as_text series)))"

text \<open>
  The three ways of \<^verbatim>\<open>predict\<close> to build the prompts (lines 91 to 128), with the dataframe
  as it is afterwards. A template given at prediction time overrides the model's.
\<close>

definition build_prompts :: "args \<Rightarrow> args \<Rightarrow> dataframe \<Rightarrow> dataframe \<times> (error + string list)" where
  "build_prompts a pred_args df =
     (if truthy (a ''prompt_template'') then
        (let base_template =
               (if truthy (pred_args ''prompt_template'') then the (pred_args ''prompt_template'')
                else the (a ''prompt_template''))
         in case compile_template base_template of
              Inl e \<Rightarrow> (df, Inl e)
            | Inr (template, columns) \<Rightarrow> render_template template columns df)
      else if truthy (a ''context_column'') then
        (case get_col df (the (a ''context_column'')) of
           Inl e \<Rightarrow> (df, Inl e)
         | Inr cs \<Rightarrow>
             (case a ''question_column'' of
                None \<Rightarrow> (df, Inl (KeyError ''question_column''))
              | Some qc \<Rightarrow>
                  (case get_col df qc of
                     Inl e \<Rightarrow> (df, Inl e)
                   | Inr qs \<Rightarrow>
                       (df, Inr (map (\<lambda>(c, q). ''Context: '' @ c @ [newline] @ ''Question: ''
                                               @ q @ [newline] @ ''Answer: '')
                                   (zip (map py_str cs) (map py_str qs)))))))
      else
        (case a ''question_column'' of
           None \<Rightarrow> (df, Inl (KeyError ''question_column''))
         | Some qc \<Rightarrow>
             (case get_col df qc of
                Inl e \<Rightarrow> (df, Inl e)
              | Inr qs \<Rightarrow> (df, Inr (map py_str qs)))))"

text \<open>
  Line 88 of \<^verbatim>\<open>predict\<close> clamps \<^verbatim>\<open>args.get('temperature', 0.0)\<close> to the interval from 0 to 1.
  This entry is the one value of the args that the code computes with, so its type matters:
  comparing with a number succeeds, and \<^verbatim>\<open>max(0.0, t)\<close> on a text \<open>t\<close> raises \<open>TypeError\<close>.
  The entry is therefore given apart from the text entries, as absent, a number or a
  text. A number is a rational here: the clamped value only travels to the service.
\<close>

datatype temperature_value = Number rat | Text string

definition clamp_temperature :: "temperature_value option \<Rightarrow> error + rat" where
  "clamp_temperature v =
     (case (case v of None \<Rightarrow> Number 0 | Some x \<Rightarrow> x) of
        Number t \<Rightarrow> Inr (min 1 (max 0 t))
      | Text s \<Rightarrow> Inl TypeError)"

text \<open>
  \<^verbatim>\<open>predict\<close>, on the stored args of the model (their text entries \<open>a\<close> and the entry
  \<open>temperature\<close>) and the \<^verbatim>\<open>predict_params\<close>. The two column checks come first, then the
  temperature is clamped, then the prompts are built. The model name, the token limit and
  the clamped temperature only travel to the service, which is the submitter; the result
  is the column of completions of the returned dataframe, paired with the caller's
  dataframe as the call leaves it. \<^verbatim>\<open>_completion\<close> runs with its default \<^verbatim>\<open>parallel=True\<close>.
\<close>

definition predict ::
  "handler \<Rightarrow> environment \<Rightarrow> submitter \<Rightarrow> args \<Rightarrow> temperature_value option \<Rightarrow> args
     \<Rightarrow> dataframe \<Rightarrow> dataframe \<times> (error + string list)" where
  "predict self env submit a temperature pred_args df =
     (if truthy (a ''question_column'') \<and> \<not> has_col df (the (a ''question_column'')) then
        (df, Inl (Exception (''This model expects a question to answer in the '' @ [CHR 0x27]
                               @ the (a ''question_column'') @ [CHR 0x27] @ '' column.'')))
      else if truthy (a ''context_column'') \<and> \<not> has_col df (the (a ''context_column'')) then
        (df, Inl (Exception (''This model expects context in the '' @ [CHR 0x27]
                               @ the (a ''context_column'') @ [CHR 0x27] @ '' column.'')))
      else
        (case clamp_temperature temperature of
           Inl e \<Rightarrow> (df, Inl e)
         | Inr t \<Rightarrow>
             (case build_prompts a pred_args df of
                (df', Inl e) \<Rightarrow> (df', Inl e)
              | (df', Inr prompts) \<Rightarrow>
                  (case get_api_key env a of
                     Inl e \<Rightarrow> (df', Inl e)
                   | Inr api_key \<Rightarrow> (df', run_completion self submit prompts True)))))"

section \<open>Example inputs\<close>

text \<open>Concrete inputs on which the properties below are instantiated.\<close>

definition example_prompts :: "string list" where
  "example_prompts = [''p0'', ''p1'', ''p2'', ''p3'', ''p4'']"

definition example_payload :: completion where
  "example_payload =
     \<lparr>choices = [[newline, CHR ''h'', CHR ''i'', newline, newline]],
      usage = \<lparr>prompt_tokens = 10, completion_tokens = 5, total_tokens = 15\<rparr>\<rparr>"

text \<open>A rejection of the probe in the service's wording, announcing a limit of two prompts.\<close>

definition example_message :: string where
  "example_message = ''Too many prompts requested (you requested 5 prompts, but you can currently request up to at most a total of 2). Please contact support.''"

text \<open>
  A service that rejects the probe with that message and answers every batch, one choice
  per prompt, in the order of the prompts.
\<close>

definition example_submit :: submitter where
  "example_submit n ps =
     (if n = 0 then Inl (InvalidRequestError example_message)
      else Inr \<lparr>choices = map (\<lambda>p. newline # ''re '' @ p) ps,
                usage = \<lparr>prompt_tokens = int (length ps), completion_tokens = int (length ps),
                         total_tokens = 2 * int (length ps)\<rparr>\<rparr>)"

text \<open>The same service, except that its answer to the second batch is a fatal error.\<close>

definition example_failing :: submitter where
  "example_failing n ps =
     (if n = 2 then Inl (ServiceError ''server error'') else example_submit n ps)"

text \<open>
  A service that limits a request to one prompt and reports the usage counters
  \<open>(10, 5, 15)\<close> for the first batch and \<open>(7, 3, 10)\<close> for the others.
\<close>

definition usage_submit :: submitter where
  "usage_submit n ps =
     (if n = 0 then Inl (InvalidRequestError ''you can currently request up to at most a total of 1). '')
      else if n = 1 then
        Inr \<lparr>choices = [''a''], usage = \<lparr>prompt_tokens = 10, completion_tokens = 5, total_tokens = 15\<rparr>\<rparr>
      else
        Inr \<lparr>choices = [''b''], usage = \<lparr>prompt_tokens = 7, completion_tokens = 3, total_tokens = 10\<rparr>\<rparr>)"

text \<open>
  A table with the single row \<open>{name: "Ada", age: "30"}\<close>, a table whose \<open>age\<close> column holds the
  integer 30, an environment with a key, arguments with a template and arguments with both
  a template and a question column, and a service that accepts every request and answers
  each prompt with the prompt itself.
\<close>

definition ada_frame :: dataframe where
  "ada_frame = \<lparr>nrows = 1, cols = [(''name'', [PStr ''Ada'']), (''age'', [PStr ''30''])]\<rparr>"

definition age_frame :: dataframe where
  "age_frame = \<lparr>nrows = 1, cols = [(''age'', [PInt 30])]\<rparr>"

definition example_env :: environment where
  "example_env =
     \<lparr>connection_args = [''api_key'' \<mapsto> ''sk-example''], env_api_key = None,
      config_openai = Map.empty\<rparr>"

definition hello_args :: args where
  "hello_args = [''prompt_template'' \<mapsto> ''Hello {{name}}, you are {{age}}.'']"

definition both_args :: args where
  "both_args = [''prompt_template'' \<mapsto> ''Say {{text}}'', ''question_column'' \<mapsto> ''text'']"

definition echo_submit :: submitter where
  "echo_submit n ps =
     Inr \<lparr>choices = ps,
          usage = \<lparr>prompt_tokens = 0, completion_tokens = 0, total_tokens = 0\<rparr>\<rparr>"


section \<open>Batch planning\<close>

lemma py_slice_nonneg:
  assumes "0 \<le> lo" "lo \<le> hi"
  shows "py_slice xs lo hi = take (nat hi - nat lo) (drop (nat lo) xs)"
  using assms by (auto simp: py_slice_def clamp_index_def Let_def min_def)

lemma batch_slice_pos:
  assumes "0 < b"
  shows "batch_slice xs b i = take (nat b) (drop (i * nat b) xs)"
proof -
  have lo: "0 \<le> int i * b" using assms by simp
  have le: "int i * b \<le> (int i + 1) * b" using assms by (simp add: algebra_simps)
  have n1: "nat (int i * b) = i * nat b" using assms by (simp add: nat_mult_distrib)
  have n2: "nat ((int i + 1) * b) = i * nat b + nat b"
    using assms by (simp add: nat_mult_distrib nat_add_distrib algebra_simps)
  show ?thesis
    unfolding batch_slice_def py_slice_nonneg [OF lo le] n1 n2 by simp
qed

lemma batch_count_pos:
  assumes "0 < b"
  shows "batch_count n b = Inr (nat \<lceil>real n / real_of_int b\<rceil>)"
proof -
  have "\<lceil>real n / real_of_int b\<rceil> = - \<lfloor>real_of_int (- int n) / real_of_int b\<rfloor>"
    by (simp add: ceiling_def)
  also have "\<dots> = - ((- int n) div b)"
    by (simp only: floor_divide_of_int_eq)
  finally show ?thesis using assms by (simp add: batch_count_def)
qed

lemma concat_chunks:
  "concat (map (\<lambda>i. take B (drop (i * B) xs)) [0..<k]) = take (k * B) xs"
proof (induction k)
  case 0
  show ?case by simp
next
  case (Suc k)
  have "take (k * B) xs @ take B (drop (k * B) xs) = take (k * B + B) xs"
    by (simp add: take_add)
  with Suc show ?case by (simp add: add.commute)
qed

lemma ceiling_covers:
  assumes "0 < b"
  shows "int n \<le> \<lceil>real n / real_of_int b\<rceil> * b"
proof -
  have "real n / real_of_int b \<le> real_of_int \<lceil>real n / real_of_int b\<rceil>" by (rule le_of_int_ceiling)
  then have "real n \<le> real_of_int \<lceil>real n / real_of_int b\<rceil> * real_of_int b"
  proof -
    have "0 < real_of_int b" using assms by simp
    then show ?thesis using \<open>real n / real_of_int b \<le> real_of_int \<lceil>real n / real_of_int b\<rceil>\<close>
      by (simp only: pos_divide_le_eq)
  qed
  then have "real_of_int (int n) \<le> real_of_int (\<lceil>real n / real_of_int b\<rceil> * b)" by simp
  then show ?thesis by (simp only: of_int_le_iff)
qed

text \<open>
  Claim C2. For every prompt list and every batch size \<open>b \<ge> 1\<close>, the batches that
  \<^verbatim>\<open>_completion\<close> forms, the slices \<^verbatim>\<open>prompts[i*b:(i+1)*b]\<close> for \<open>i\<close> in
  \<^verbatim>\<open>range(ceil(N/b))\<close>, each have at most \<open>b\<close> elements, concatenate in order to exactly the
  prompt list, and number exactly \<open>\<lceil>N / b\<rceil>\<close>.
\<close>

theorem planned_batches_partition:
  assumes "1 \<le> b"
  shows "\<exists>bs. planned_batches prompts b = Inr bs
           \<and> (\<forall>x \<in> set bs. int (length x) \<le> b)
           \<and> concat bs = prompts
           \<and> int (length bs) = \<lceil>real (length prompts) / real_of_int b\<rceil>
           \<and> (\<forall>i < length bs. bs ! i = py_slice prompts (int i * b) ((int i + 1) * b))"
proof -
  let ?k = "nat \<lceil>real (length prompts) / real_of_int b\<rceil>"
  let ?bs = "map (batch_slice prompts b) [0..<?k]"
  have pos: "0 < b" using assms by simp
  have k0: "0 \<le> \<lceil>real (length prompts) / real_of_int b\<rceil>"
  proof -
    have "0 \<le> real (length prompts) / real_of_int b" using pos by simp
    then show ?thesis by (simp only: zero_le_ceiling)
  qed
  have eq: "planned_batches prompts b = Inr ?bs"
    by (simp add: planned_batches_def batch_count_pos [OF pos])
  have len: "\<forall>x \<in> set ?bs. int (length x) \<le> b"
    using pos by (auto simp: batch_slice_pos)
  have "int (length prompts) \<le> int (?k * nat b)"
    using ceiling_covers [OF pos, of "length prompts"] k0 pos by (simp add: nat_mult_distrib [symmetric])
  then have cover: "length prompts \<le> ?k * nat b" by (simp only: of_nat_le_iff)
  have "concat ?bs = take (?k * nat b) prompts"
    using concat_chunks [of "nat b" prompts ?k] by (simp add: batch_slice_pos [OF pos] cong: map_cong)
  then have cat: "concat ?bs = prompts" using cover by simp
  have cnt: "int (length ?bs) = \<lceil>real (length prompts) / real_of_int b\<rceil>" using k0 by simp
  have nth: "\<forall>i < length ?bs. ?bs ! i = py_slice prompts (int i * b) ((int i + 1) * b)"
    by (simp add: batch_slice_def)
  from eq len cat cnt nth show ?thesis by blast
qed

theorem planned_batches_partition_witness:
  "(1::int) \<le> 2 \<and>
   (\<exists>bs. planned_batches example_prompts 2 = Inr bs
      \<and> (\<forall>x \<in> set bs. int (length x) \<le> 2)
      \<and> concat bs = example_prompts
      \<and> int (length bs) = \<lceil>real (length example_prompts) / real_of_int 2\<rceil>
      \<and> (\<forall>i < length bs. bs ! i = py_slice example_prompts (int i * 2) ((int i + 1) * 2)))"
proof -
  have h: "(1::int) \<le> 2" by simp
  from h planned_batches_partition [OF h, of example_prompts] show ?thesis by (rule conjI)
qed

lemma planned_batches_example:
  "planned_batches example_prompts 2 = Inr [[''p0'', ''p1''], [''p2'', ''p3''], [''p4'']]"
  by (simp add: planned_batches_def batch_count_def batch_slice_def py_slice_def
      clamp_index_def example_prompts_def upt_rec)

section \<open>Tidying the completions\<close>

lemma py_strip_empty: "py_strip [] s = s"
  by (simp add: py_strip_def)






lemma tidy_example:
  "tidy example_payload = [''hi''] \<and> tidy example_payload \<noteq> choices example_payload"
  by (simp add: tidy_def py_strip_def example_payload_def newline_def)

section \<open>Dispatch and assembly\<close>

lemma upt_2: "[0..<2] = [0, Suc 0]"
  by (simp add: upt_rec)

text \<open>
  Claim C3 says that the assembled usage counters are the elementwise sum of the batches'
  counters under both policies. On two batches with usage \<open>(10, 5, 15)\<close> and \<open>(7, 3, 10)\<close>
  the concurrent branch leaves the counters of the first batch, \<open>(10, 5, 15)\<close>, in the
  assembled payload, where the sequential branch has the sum \<open>(17, 8, 25)\<close>.
\<close>

theorem concurrent_usage_not_summed:
  "assemble usage_submit [''p'', ''q''] True 1 =
     Inr (Some \<lparr>choices = [''a'', ''b''],
                usage = \<lparr>prompt_tokens = 10, completion_tokens = 5, total_tokens = 15\<rparr>\<rparr>)
   \<and> assemble usage_submit [''p'', ''q''] False 1 =
     Inr (Some \<lparr>choices = [''a'', ''b''],
                usage = \<lparr>prompt_tokens = 17, completion_tokens = 8, total_tokens = 25\<rparr>\<rparr>)"
  by (simp add: assemble_def batch_count_def upt_2 submit_all_def usage_submit_def
      merge_concurrent_def merge_sequential_def)

lemma collect_promises_first_failure:
  "n < length ps \<Longrightarrow> ps ! n = Inl e \<Longrightarrow> \<forall>m<n. \<exists>c. ps ! m = Inr c
     \<Longrightarrow> collect_promises ps acc = Inl e"
proof (induction ps arbitrary: n acc)
  case Nil
  then show ?case by simp
next
  case (Cons p ps)
  show ?case
  proof (cases n)
    case 0
    with Cons.prems show ?thesis by simp
  next
    case (Suc n')
    have "0 < n" using Suc by simp
    with Cons.prems(3) have "\<exists>c. (p # ps) ! 0 = Inr c" by (elim allE impE) 
    then obtain c where c: "p = Inr c" by auto
    have a: "n' < length ps" using Cons.prems(1) Suc by simp
    have b: "ps ! n' = Inl e" using Cons.prems(2) Suc by simp
    have d: "\<forall>m<n'. \<exists>c. ps ! m = Inr c"
    proof (intro allI impI)
      fix m assume "m < n'"
      then have "Suc m < n" using Suc by simp
      with Cons.prems(3) have "\<exists>c. (p # ps) ! Suc m = Inr c" by (elim allE impE)
      then show "\<exists>c. ps ! m = Inr c" by simp
    qed
    show ?thesis using Cons.IH [OF a b d] c by simp
  qed
qed

lemma collect_promises_Some:
  "collect_promises (map Inr cs) (Some a) =
     Inr (Some (a\<lparr>choices := choices a @ concat (map choices cs)\<rparr>))"
  by (induction cs arbitrary: a) (simp_all add: merge_concurrent_def)

lemma collect_promises_None:
  "collect_promises (map Inr (c # cs)) None =
     Inr (Some (c\<lparr>choices := choices c @ concat (map choices cs)\<rparr>))"
  by (simp add: merge_concurrent_def collect_promises_Some)


lemma submit_all_nth:
  "i < k \<Longrightarrow> submit_all submit prompts b [0..<k] ! i = submit (Suc i) (batch_slice prompts b i)"
  by (simp add: submit_all_def)

lemma submit_all_length: "length (submit_all submit prompts b [0..<k]) = k"
  by (simp add: submit_all_def)

lemma first_failure_exists:
  fixes f :: "nat \<Rightarrow> error + completion"
  assumes "f i = Inl e"
  shows "\<exists>j e'. j \<le> i \<and> f j = Inl e' \<and> (\<forall>l<j. \<exists>c. f l = Inr c)"
proof -
  define j where "j = (LEAST j. \<exists>e'. f j = Inl e')"
  have ex: "\<exists>e'. f i = Inl e'" using assms by (rule exI)
  have le: "j \<le> i" unfolding j_def using ex by (rule Least_le)
  have "\<exists>e'. f j = Inl e'" unfolding j_def using ex by (rule LeastI)
  then obtain e' where e': "f j = Inl e'" by (elim exE)
  have before: "\<forall>l<j. \<exists>c. f l = Inr c"
  proof (intro allI impI)
    fix l assume "l < j"
    then have "\<not> (\<exists>e'. f l = Inl e')" unfolding j_def by (rule not_less_Least)
    then show "\<exists>c. f l = Inr c" by (cases "f l") simp_all
  qed
  from le e' before show ?thesis by (intro exI conjI)
qed

text \<open>
  Claim C4. Under the concurrent policy, if the submission of any batch fails, the whole
  call raises and returns no completions: the result is the error of the first failed
  batch in submission order, whatever the other batches returned.
\<close>

theorem concurrent_failure_aborts:
  assumes probe: "submit 0 prompts = Inl (InvalidRequestError msg)"
    and disc: "discover_batch_size self msg = Inr b"
    and cnt: "batch_count (length prompts) b = Inr k"
    and i: "i < k"
    and fail: "submit (Suc i) (batch_slice prompts b i) = Inl e"
  shows "\<exists>j e'. j \<le> i
            \<and> submit (Suc j) (batch_slice prompts b j) = Inl e'
            \<and> (\<forall>l<j. \<exists>c. submit (Suc l) (batch_slice prompts b l) = Inr c)
            \<and> run_completion self submit prompts True = Inl e'"
proof -
  let ?f = "\<lambda>j. submit (Suc j) (batch_slice prompts b j)"
  let ?ps = "submit_all submit prompts b [0..<k]"
  from first_failure_exists [of ?f i e, OF fail]
  obtain j e' where le: "j \<le> i" and e': "?f j = Inl e'"
    and before: "\<forall>l<j. \<exists>c. ?f l = Inr c" by (elim exE conjE)
  have jk: "j < k" using le i by simp
  have a: "j < length ?ps" using jk by (simp add: submit_all_length)
  have b: "?ps ! j = Inl e'" using jk e' by (simp add: submit_all_nth)
  have c: "\<forall>m<j. \<exists>c. ?ps ! m = Inr c"
  proof (intro allI impI)
    fix m assume m: "m < j"
    then have "m < k" using jk by simp
    then have "?ps ! m = ?f m" by (rule submit_all_nth)
    moreover from before m have "\<exists>c. ?f m = Inr c" by (elim allE impE)
    ultimately show "\<exists>c. ?ps ! m = Inr c" by simp
  qed
  have "collect_promises ?ps None = Inl e'"
    using a b c by (rule collect_promises_first_failure)
  then have "assemble submit prompts True b = Inl e'"
    by (simp add: assemble_def cnt)
  then have "run_completion self submit prompts True = Inl e'"
    by (simp add: run_completion_def probe disc)
  with le e' before show ?thesis by (intro exI conjI)
qed


lemma length_concat_blocks:
  assumes len: "\<forall>j<k. length (f j) = min B (n - j * B)"
  shows "j \<le> k \<Longrightarrow> length (concat (map f [0..<j])) = min (j * B) n"
proof (induction j)
  case 0
  show ?case by simp
next
  case (Suc j)
  have "j < k" using Suc.prems by simp
  with len have l: "length (f j) = min B (n - j * B)" by (elim allE impE)
  have ih: "length (concat (map f [0..<j])) = min (j * B) n" using Suc by simp
  have "min x n + min B (n - x) = min (x + B) n" for x :: nat by arith
  then have "min (j * B) n + min B (n - j * B) = min (j * B + B) n" .
  then show ?case using l ih by (simp add: add.commute)
qed

lemma upt_split_at: "j < k \<Longrightarrow> [0..<k] = [0..<j] @ j # [Suc j..<k]"
proof -
  assume jk: "j < k"
  have "[0..<j + (k - j)] = [0..<j] @ [j..<j + (k - j)]" by (rule upt_add_eq_append) simp
  then have "[0..<k] = [0..<j] @ [j..<k]" using jk by simp
  then show ?thesis using jk by (simp only: upt_conv_Cons [OF jk])
qed

lemma nth_concat_blocks:
  assumes len: "\<forall>j<k. length (f j) = min B (n - j * B)"
    and i: "i < n" and cover: "n \<le> k * B" and B: "0 < B"
  shows "concat (map f [0..<k]) ! i = f (i div B) ! (i mod B)"
proof -
  let ?j = "i div B"
  have "i < k * B" using i cover by simp
  then have jk: "?j < k" by (rule less_mult_imp_div_less)
  have jB: "?j * B \<le> i" by simp
  have pre: "length (concat (map f [0..<?j])) = ?j * B"
    using length_concat_blocks [OF len, of ?j] jk jB i by simp
  from len jk have lj: "length (f ?j) = min B (n - ?j * B)" by (elim allE impE)
  have im: "i = ?j * B + i mod B" by simp
  have "i mod B < B" using B by simp
  moreover have "i mod B < n - ?j * B" using i im by linarith
  ultimately have inj: "i mod B < length (f ?j)" using lj by simp
  have "concat (map f [0..<k]) =
          concat (map f [0..<?j]) @ (f ?j @ concat (map f [Suc ?j..<k]))"
    by (simp add: upt_split_at [OF jk])
  then have "concat (map f [0..<k]) ! i =
          (concat (map f [0..<?j]) @ (f ?j @ concat (map f [Suc ?j..<k]))) ! (length (concat (map f [0..<?j])) + i mod B)"
    using im pre by simp
  also have "\<dots> = (f ?j @ concat (map f [Suc ?j..<k])) ! (i mod B)"
    by (rule nth_append_length_plus)
  also have "\<dots> = f ?j ! (i mod B)" using inj by (simp add: nth_append)
  finally show ?thesis .
qed

lemma batch_count_covers:
  assumes "0 < b"
  shows "n \<le> nat \<lceil>real n / real_of_int b\<rceil> * nat b"
proof -
  have k0: "0 \<le> \<lceil>real n / real_of_int b\<rceil>"
  proof -
    have "0 \<le> real n / real_of_int b" using assms by simp
    then show ?thesis by (simp only: zero_le_ceiling)
  qed
  have "int n \<le> int (nat \<lceil>real n / real_of_int b\<rceil> * nat b)"
    using ceiling_covers [OF assms, of n] k0 assms by (simp add: nat_mult_distrib [symmetric])
  then show ?thesis by (simp only: of_nat_le_iff)
qed


lemma batch_slice_nth:
  assumes b: "0 < b" and i: "i < length prompts"
  shows "batch_slice prompts b (i div nat b) ! (i mod nat b) = prompts ! i"
proof -
  have B: "0 < nat b" using b by simp
  have m: "i mod nat b < nat b" using B by simp
  have le: "i div nat b * nat b \<le> length prompts" using i by (simp add: order_trans [of _ i])
  have "take (nat b) (drop (i div nat b * nat b) prompts) ! (i mod nat b)
          = drop (i div nat b * nat b) prompts ! (i mod nat b)"
    using m by (rule nth_take)
  also have "\<dots> = prompts ! (i div nat b * nat b + i mod nat b)"
    using le by (rule nth_drop)
  also have "\<dots> = prompts ! i" by simp
  finally show ?thesis by (simp only: batch_slice_pos [OF b])
qed

lemma batch_slice_length:
  "0 < b \<Longrightarrow> length (batch_slice prompts b j) = min (nat b) (length prompts - j * nat b)"
  by (simp add: batch_slice_pos min.commute)

text \<open>
  Claim C1. Under the concurrent policy with a discovered batch size \<open>b \<ge> 1\<close>, when every
  batch is answered with one choice per prompt, the call returns one completion per prompt
  and the \<open>i\<close>-th one is the tidied choice that the service gave for the \<open>i\<close>-th prompt:
  prompt \<open>i\<close> is element \<open>i mod b\<close> of batch \<open>i div b\<close>, and the \<open>i\<close>-th result is choice
  \<open>i mod b\<close> of the answer to that batch.
\<close>

theorem concurrent_order_preserved:
  assumes probe: "submit 0 prompts = Inl (InvalidRequestError msg)"
    and disc: "discover_batch_size self msg = Inr b"
    and pos: "1 \<le> b"
    and nonempty: "prompts \<noteq> []"
    and ok: "\<forall>j < nat \<lceil>real (length prompts) / real_of_int b\<rceil>.
               \<exists>c. submit (Suc j) (batch_slice prompts b j) = Inr c
                 \<and> length (choices c) = length (batch_slice prompts b j)"
  shows "\<exists>r. run_completion self submit prompts True = Inr r
           \<and> length r = length prompts
           \<and> (\<forall>i < length prompts.
                \<exists>c. submit (Suc (i div nat b)) (batch_slice prompts b (i div nat b)) = Inr c
                  \<and> batch_slice prompts b (i div nat b) ! (i mod nat b) = prompts ! i
                  \<and> r ! i = py_strip [newline] (choices c ! (i mod nat b)))"
proof -
  let ?n = "length prompts"
  let ?B = "nat b"
  let ?k = "nat \<lceil>real ?n / real_of_int b\<rceil>"
  let ?f = "\<lambda>j. submit (Suc j) (batch_slice prompts b j)"
  define c where "c j = projr (?f j)" for j
  define f where "f j = choices (c j)" for j
  have b0: "0 < b" using pos by simp
  have B0: "0 < ?B" using b0 by simp
  have cnt: "batch_count ?n b = Inr ?k" using b0 by (rule batch_count_pos)
  have cover: "?n \<le> ?k * ?B" using b0 by (rule batch_count_covers)
  have n0: "0 < ?n" using nonempty by simp
  have k0: "0 < ?k"
  proof (rule ccontr)
    assume "\<not> 0 < ?k"
    then have "?k * ?B = 0" by simp
    with cover n0 show False by simp
  qed
  have each: "?f j = Inr (c j) \<and> length (f j) = min ?B (?n - j * ?B)" if "j < ?k" for j
  proof -
    from ok that obtain x where x: "?f j = Inr x"
      and lx: "length (choices x) = length (batch_slice prompts b j)" by (elim allE impE exE conjE)
    have "c j = x" by (simp add: c_def x)
    then show ?thesis using x lx by (simp add: f_def batch_slice_length [OF b0])
  qed
  have len: "\<forall>j<?k. length (f j) = min ?B (?n - j * ?B)" using each by simp
  have "submit_all submit prompts b [0..<?k] = map (\<lambda>j. Inr (c j)) [0..<?k]"
    unfolding submit_all_def by (rule map_cong [OF refl]) (simp add: each)
  also have "\<dots> = map Inr (c 0 # map c [Suc 0..<?k])"
    by (simp add: upt_conv_Cons [OF k0])
  finally have ps: "submit_all submit prompts b [0..<?k] = map Inr (c 0 # map c [Suc 0..<?k])" .
  define texts where "texts = concat (map f [0..<?k])"
  have f_eq: "f = (\<lambda>j. choices (c j))" by (rule ext) (simp add: f_def)
  have texts: "choices (c 0) @ concat (map choices (map c [Suc 0..<?k])) = texts"
    by (simp add: texts_def upt_conv_Cons [OF k0] f_eq comp_def)
  have asm: "assemble submit prompts True b = Inr (Some ((c 0)\<lparr>choices := texts\<rparr>))"
  proof -
    have "collect_promises (submit_all submit prompts b [0..<?k]) None
            = Inr (Some ((c 0)\<lparr>choices := texts\<rparr>))"
      by (simp only: ps collect_promises_None texts)
    then show ?thesis by (simp add: assemble_def cnt)
  qed
  define r where "r = map (py_strip [newline]) texts"
  have run: "run_completion self submit prompts True = Inr r"
    by (simp add: run_completion_def probe disc asm tidy_def py_strip_empty r_def)
  have lt: "length texts = ?n"
    using length_concat_blocks [OF len, of ?k] cover by (simp add: texts_def)
  have lr: "length r = ?n" by (simp add: r_def lt)
  have nth: "\<exists>x. ?f (i div ?B) = Inr x
                  \<and> batch_slice prompts b (i div ?B) ! (i mod ?B) = prompts ! i
                  \<and> r ! i = py_strip [newline] (choices x ! (i mod ?B))" if i: "i < ?n" for i
  proof -
    have "i < ?k * ?B" using i cover by simp
    then have jk: "i div ?B < ?k" by (rule less_mult_imp_div_less)
    have s: "?f (i div ?B) = Inr (c (i div ?B))" using each [OF jk] by simp
    have p: "batch_slice prompts b (i div ?B) ! (i mod ?B) = prompts ! i"
      using b0 i by (rule batch_slice_nth)
    have "texts ! i = f (i div ?B) ! (i mod ?B)"
      unfolding texts_def using len i cover B0 by (rule nth_concat_blocks)
    then have t: "r ! i = py_strip [newline] (choices (c (i div ?B)) ! (i mod ?B))"
      using i lt by (simp add: r_def f_def)
    from s p t show ?thesis by (intro exI conjI)
  qed
  have all: "\<forall>i < ?n. \<exists>x. ?f (i div ?B) = Inr x
                  \<and> batch_slice prompts b (i div ?B) ! (i mod ?B) = prompts ! i
                  \<and> r ! i = py_strip [newline] (choices x ! (i mod ?B))"
  proof (intro allI impI)
    fix i assume "i < ?n"
    then show "\<exists>x. ?f (i div ?B) = Inr x
                  \<and> batch_slice prompts b (i div ?B) ! (i mod ?B) = prompts ! i
                  \<and> r ! i = py_strip [newline] (choices x ! (i mod ?B))" by (rule nth)
  qed
  from run lr all show ?thesis by (intro exI conjI)
qed

section \<open>Batch-size discovery\<close>

lemma prefix_stops_at_foreign:
  assumes "x \<notin> set sub" and "prefix sub (xs @ x # ys)"
  shows "prefix sub xs"
proof -
  from assms(2) have "prefix sub xs \<or> (\<exists>us. sub = xs @ us \<and> prefix us (x # ys))"
    by (simp only: prefix_append)
  then show ?thesis
  proof
    assume "prefix sub xs" then show ?thesis .
  next
    assume "\<exists>us. sub = xs @ us \<and> prefix us (x # ys)"
    then obtain us where s: "sub = xs @ us" and p: "prefix us (x # ys)" by (elim exE conjE)
    show ?thesis
    proof (cases us)
      case Nil
      with s show ?thesis by simp
    next
      case (Cons u us')
      with p have "u = x" by simp
      with s Cons assms(1) show ?thesis by simp
    qed
  qed
qed

lemma find_from_skip:
  assumes "x \<notin> set sub"
  shows "\<not> py_in sub pre \<Longrightarrow>
    find_from sub (pre @ x # rest) pos = find_from sub (x # rest) (pos + length pre)"
proof (induction pre arbitrary: pos)
  case Nil
  show ?case by simp
next
  case (Cons c pre)
  from Cons.prems have np: "\<not> prefix sub (c # pre)" and ni: "\<not> py_in sub pre" by simp_all
  have "\<not> prefix sub ((c # pre) @ x # rest)"
    using np prefix_stops_at_foreign [OF assms] by blast
  then show ?case using Cons.IH [OF ni, of "Suc pos"] by simp
qed

lemma py_in_append: "py_in sub (pre @ sub @ rest)"
proof (induction pre)
  case Nil
  show ?case
  proof (cases "sub @ rest")
    case Nil
    then show ?thesis by simp
  next
    case (Cons a list)
    have "prefix sub (sub @ rest)" by simp
    then have "prefix sub (a # list)" by (simp only: Cons)
    then show ?thesis by (simp add: Cons)
  qed
next
  case (Cons c pre)
  then show ?case by simp
qed

lemma split_scan_first:
  "\<not> py_in '').'' (xs @ '')'') \<Longrightarrow>
   split_scan '').'' cur (xs @ '').'' @ rest) = (rev cur @ xs) # split_scan '').'' [] rest"
proof (induction xs arbitrary: cur)
  case Nil
  show ?case by simp
next
  case (Cons c xs)
  from Cons.prems have np: "\<not> prefix '').'' (c # xs @ '')'')" and ni: "\<not> py_in '').'' (xs @ '')'')"
    by simp_all
  have "\<not> prefix '').'' (c # xs @ '').'' @ rest)"
    using np by (cases xs) auto
  then show ?case using Cons.IH [OF ni, of "c # cur"] by simp
qed


lemma find_in_pattern:
  "find_from ''a total of''
     (''you can currently request up to at most a total of'' @ tail) pos = int (pos + 40)"
  by simp

text \<open>
  Claim C5. When the rejection's message does not contain
  \<^verbatim>\<open>you can currently request up to at most a total of\<close>, the discovered batch size is
  \<^verbatim>\<open>self.max_batch_size\<close>, which \<^verbatim>\<open>__init__\<close> sets to 20, and nothing is raised. When the message
  has that wording, followed by a text \<open>num\<close> and \<^verbatim>\<open>).\<close>, the batch size is \<^verbatim>\<open>int(num)\<close>.
\<close>

theorem discovery_fallback:
  "(\<not> py_in ''you can currently request up to at most a total of'' msg
       \<longrightarrow> discover_batch_size self msg = Inr (max_batch_size self))
   \<and> max_batch_size handler_init = 20
   \<and> (msg = pre @ ''you can currently request up to at most a total of'' @ num @ '').'' @ post
        \<and> \<not> py_in ''a total of'' pre \<and> \<not> py_in '').'' (num @ '')'')
       \<longrightarrow> discover_batch_size self msg = py_int num)"
proof (intro conjI impI)
  assume "\<not> py_in ''you can currently request up to at most a total of'' msg"
  then show "discover_batch_size self msg = Inr (max_batch_size self)"
    by (simp add: discover_batch_size_def)
next
  show "max_batch_size handler_init = 20" by (simp add: handler_init_def)
next
  let ?pat = "''you can currently request up to at most a total of''"
  let ?tail = "num @ '').'' @ post"
  assume "msg = pre @ ?pat @ num @ '').'' @ post
        \<and> \<not> py_in ''a total of'' pre \<and> \<not> py_in '').'' (num @ '')'')"
  then have msg: "msg = pre @ ?pat @ ?tail" and npre: "\<not> py_in ''a total of'' pre"
    and nsep: "\<not> py_in '').'' (num @ '')'')" by simp_all
  have isin: "py_in ?pat msg" unfolding msg by (rule py_in_append)
  have y: "CHR ''y'' \<notin> set ''a total of''" by simp
  have "py_find msg ''a total of'' = find_from ''a total of'' (pre @ CHR ''y'' # (''ou can currently request up to at most a total of'' @ ?tail)) 0"
    by (simp add: py_find_def msg)
  also have "\<dots> = find_from ''a total of'' (CHR ''y'' # (''ou can currently request up to at most a total of'' @ ?tail)) (0 + length pre)"
    using y npre by (rule find_from_skip)
  also have "\<dots> = int (length pre + 40)"
    using find_in_pattern [of ?tail "length pre"] by simp
  finally have fnd: "py_find msg ''a total of'' = int (length pre + 40)" .
  have lm: "length msg = length pre + 50 + length ?tail" by (simp add: msg)
  have "py_slice msg (int (length pre + 40) + 10) (int (length msg))
          = take (nat (int (length msg)) - nat (int (length pre + 40) + 10))
              (drop (nat (int (length pre + 40) + 10)) msg)"
    by (rule py_slice_nonneg) (simp_all add: lm)
  also have "nat (int (length pre + 40) + 10) = length (pre @ ?pat)" by simp
  also have "drop (length (pre @ ?pat)) msg = ?tail"
  proof -
    have "drop (length xs) (xs @ ys) = ys" for xs ys :: string by simp
    then have "drop (length (pre @ ?pat)) ((pre @ ?pat) @ ?tail) = ?tail" .
    then show ?thesis by (simp only: msg append_assoc)
  qed
  also have "take (nat (int (length msg)) - length (pre @ ?pat)) ?tail = ?tail"
    by (simp add: lm)
  finally have rest: "py_slice msg (int (length pre + 40) + 10) (int (length msg)) = ?tail" .
  have sp: "py_split ?tail '').'' = Inr (num # split_scan '').'' [] post)"
    using split_scan_first [OF nsep, of "[]" post] by (simp add: py_split_def)
  show "discover_batch_size self msg = py_int num"
    using isin rest sp by (simp add: discover_batch_size_def fnd del: py_in.simps)
qed

section \<open>The properties on the example inputs\<close>

lemma example_discovery: "discover_batch_size handler_init example_message = Inr 2"
  unfolding example_message_def by code_simp

lemma example_batch_count: "batch_count (length example_prompts) 2 = Inr 3"
  by (simp add: batch_count_def example_prompts_def)

theorem discovery_fallback_witness:
  "(\<not> py_in ''you can currently request up to at most a total of'' ''Request too large.''
     \<and> discover_batch_size handler_init ''Request too large.'' = Inr (max_batch_size handler_init)
     \<and> max_batch_size handler_init = 20)
   \<and> ((example_message =
         ''Too many prompts requested (you requested 5 prompts, but ''
           @ ''you can currently request up to at most a total of'' @ '' 2'' @ '').''
           @ '' Please contact support.''
        \<and> \<not> py_in ''a total of'' ''Too many prompts requested (you requested 5 prompts, but ''
        \<and> \<not> py_in '').'' ('' 2'' @ '')''))
     \<and> discover_batch_size handler_init example_message = py_int '' 2''
     \<and> py_int '' 2'' = Inr 2)"
proof -
  let ?pat = "''you can currently request up to at most a total of''"
  let ?pre = "''Too many prompts requested (you requested 5 prompts, but ''"
  have h1: "\<not> py_in ?pat ''Request too large.''" by code_simp
  have h2: "example_message = ?pre @ ?pat @ '' 2'' @ '').'' @ '' Please contact support.''
        \<and> \<not> py_in ''a total of'' ?pre \<and> \<not> py_in '').'' ('' 2'' @ '')'')"
    unfolding example_message_def by code_simp
  note a = discovery_fallback [where msg = "''Request too large.''" and self = handler_init]
  note b = discovery_fallback [where msg = example_message and self = handler_init
      and pre = ?pre and num = "'' 2''" and post = "'' Please contact support.''"]
  have c1: "discover_batch_size handler_init ''Request too large.'' = Inr (max_batch_size handler_init)"
    using conjunct1 [OF a] h1 by (rule mp)
  have c2: "max_batch_size handler_init = 20"
    by (rule conjunct1 [OF conjunct2 [OF a]])
  have c3: "discover_batch_size handler_init example_message = py_int '' 2''"
    using conjunct2 [OF conjunct2 [OF b]] h2 by (rule mp)
  have c4: "py_int '' 2'' = Inr 2" by code_simp
  have cc: "discover_batch_size handler_init example_message = py_int '' 2''
     \<and> py_int '' 2'' = Inr 2" using c3 c4 by (rule conjI)
  have A: "\<not> py_in ?pat ''Request too large.''
     \<and> discover_batch_size handler_init ''Request too large.'' = Inr (max_batch_size handler_init)
     \<and> max_batch_size handler_init = 20" using h1 c1 c2 by (intro conjI)
  have B: "(example_message = ?pre @ ?pat @ '' 2'' @ '').'' @ '' Please contact support.''
        \<and> \<not> py_in ''a total of'' ?pre \<and> \<not> py_in '').'' ('' 2'' @ '')''))
     \<and> discover_batch_size handler_init example_message = py_int '' 2''
     \<and> py_int '' 2'' = Inr 2" using h2 cc by (rule conjI)
  show ?thesis using A B by (rule conjI)
qed

theorem concurrent_failure_aborts_witness:
  "(example_failing 0 example_prompts = Inl (InvalidRequestError example_message)
    \<and> discover_batch_size handler_init example_message = Inr 2
    \<and> batch_count (length example_prompts) 2 = Inr 3
    \<and> (1::nat) < 3
    \<and> example_failing (Suc 1) (batch_slice example_prompts 2 1) = Inl (ServiceError ''server error''))
   \<and> (\<exists>j e'. j \<le> 1
          \<and> example_failing (Suc j) (batch_slice example_prompts 2 j) = Inl e'
          \<and> (\<forall>l<j. \<exists>c. example_failing (Suc l) (batch_slice example_prompts 2 l) = Inr c)
          \<and> run_completion handler_init example_failing example_prompts True = Inl e')"
proof -
  have probe: "example_failing 0 example_prompts = Inl (InvalidRequestError example_message)"
    by (simp add: example_failing_def example_submit_def)
  have i: "(1::nat) < 3" by simp
  have fail: "example_failing (Suc 1) (batch_slice example_prompts 2 1) = Inl (ServiceError ''server error'')"
    by (simp add: example_failing_def)
  note c = concurrent_failure_aborts [OF probe example_discovery example_batch_count i fail]
  from probe example_discovery example_batch_count i fail have
    "example_failing 0 example_prompts = Inl (InvalidRequestError example_message)
    \<and> discover_batch_size handler_init example_message = Inr 2
    \<and> batch_count (length example_prompts) 2 = Inr 3
    \<and> (1::nat) < 3
    \<and> example_failing (Suc 1) (batch_slice example_prompts 2 1) = Inl (ServiceError ''server error'')"
    by (intro conjI)
  then show ?thesis using c by (rule conjI)
qed

lemma concurrent_failure_example:
  "run_completion handler_init example_failing example_prompts True = Inl (ServiceError ''server error'')"
  unfolding example_failing_def example_submit_def example_prompts_def example_message_def
  by code_simp

theorem concurrent_order_preserved_witness:
  "(example_submit 0 example_prompts = Inl (InvalidRequestError example_message)
    \<and> discover_batch_size handler_init example_message = Inr 2
    \<and> (1::int) \<le> 2
    \<and> example_prompts \<noteq> []
    \<and> nat \<lceil>real (length example_prompts) / real_of_int 2\<rceil> = 3
    \<and> (\<exists>c. example_submit (Suc 0) (batch_slice example_prompts 2 0) = Inr c
           \<and> length (choices c) = length (batch_slice example_prompts 2 0))
    \<and> (\<exists>c. example_submit (Suc 1) (batch_slice example_prompts 2 1) = Inr c
           \<and> length (choices c) = length (batch_slice example_prompts 2 1))
    \<and> (\<exists>c. example_submit (Suc 2) (batch_slice example_prompts 2 2) = Inr c
           \<and> length (choices c) = length (batch_slice example_prompts 2 2)))
   \<and> (\<exists>r. run_completion handler_init example_submit example_prompts True = Inr r
           \<and> length r = length example_prompts
           \<and> (\<forall>i < length example_prompts.
                \<exists>c. example_submit (Suc (i div nat 2)) (batch_slice example_prompts 2 (i div nat 2)) = Inr c
                  \<and> batch_slice example_prompts 2 (i div nat 2) ! (i mod nat 2) = example_prompts ! i
                  \<and> r ! i = py_strip [newline] (choices c ! (i mod nat 2))))"
proof -
  have probe: "example_submit 0 example_prompts = Inl (InvalidRequestError example_message)"
    by (simp add: example_submit_def)
  have pos: "(1::int) \<le> 2" by simp
  have ne: "example_prompts \<noteq> []" by (simp add: example_prompts_def)
  have each: "\<exists>c. example_submit (Suc j) (batch_slice example_prompts 2 j) = Inr c
                 \<and> length (choices c) = length (batch_slice example_prompts 2 j)" for j
    by (simp add: example_submit_def)
  have ok: "\<forall>j < nat \<lceil>real (length example_prompts) / real_of_int 2\<rceil>.
               \<exists>c. example_submit (Suc j) (batch_slice example_prompts 2 j) = Inr c
                 \<and> length (choices c) = length (batch_slice example_prompts 2 j)"
    using each by (intro allI impI)
  have "Inr (nat \<lceil>real (length example_prompts) / real_of_int 2\<rceil>) = (Inr 3 :: error + nat)"
    using batch_count_pos [of 2 "length example_prompts"] example_batch_count by simp
  then have k: "nat \<lceil>real (length example_prompts) / real_of_int 2\<rceil> = 3" by simp
  note c = concurrent_order_preserved [OF probe example_discovery pos ne ok]
  from probe example_discovery pos ne k each [of 0] each [of 1] each [of 2] have
    "example_submit 0 example_prompts = Inl (InvalidRequestError example_message)
    \<and> discover_batch_size handler_init example_message = Inr 2
    \<and> (1::int) \<le> 2
    \<and> example_prompts \<noteq> []
    \<and> nat \<lceil>real (length example_prompts) / real_of_int 2\<rceil> = 3
    \<and> (\<exists>c. example_submit (Suc 0) (batch_slice example_prompts 2 0) = Inr c
           \<and> length (choices c) = length (batch_slice example_prompts 2 0))
    \<and> (\<exists>c. example_submit (Suc 1) (batch_slice example_prompts 2 1) = Inr c
           \<and> length (choices c) = length (batch_slice example_prompts 2 1))
    \<and> (\<exists>c. example_submit (Suc 2) (batch_slice example_prompts 2 2) = Inr c
           \<and> length (choices c) = length (batch_slice example_prompts 2 2))"
    by (intro conjI)
  then show ?thesis using c by (rule conjI)
qed

lemma concurrent_order_example:
  "run_completion handler_init example_submit example_prompts True
     = Inr [''re p0'', ''re p1'', ''re p2'', ''re p3'', ''re p4'']"
  unfolding example_submit_def example_prompts_def example_message_def
  by code_simp

section \<open>The prompt column of the dataframe\<close>

lemma map_of_replace_same:
  "map_of xs n \<noteq> None \<Longrightarrow>
   map_of (map (\<lambda>(k, v). if k = n then (k, s) else (k, v)) xs) n = Some s"
  by (induction xs) (auto split: if_splits)


lemma map_of_set_col_same: "map_of (cols (set_col df n s)) n = Some s"
proof (cases "has_col df n")
  case True
  then show ?thesis by (simp add: set_col_def has_col_def map_of_replace_same)
next
  case False
  then show ?thesis by (simp add: set_col_def has_col_def map_add_def)
qed


lemma get_col_set_col: "get_col (set_col df n s) n = Inr s"
  by (simp add: get_col_def map_of_set_col_same)












section \<open>Validation of the model arguments\<close>

text \<open>
  Claim C7. For every args dictionary whose \<^verbatim>\<open>USING\<close> part supplies both \<^verbatim>\<open>prompt_template\<close> and
  \<^verbatim>\<open>question_column\<close>, \<^verbatim>\<open>create_validation\<close> raises, and so it does when neither is supplied;
  validation succeeds exactly when one of the two is supplied. Validation reads its
  arguments only: no prompt is built and no service is called by it.
\<close>

theorem create_validation_exclusive:
  "(a ''using'' = Some u \<and> u ''prompt_template'' \<noteq> None \<and> u ''question_column'' \<noteq> None
      \<longrightarrow> create_validation target a = Inl (Exception
            ''Please provide either 1) a `prompt_template` or 2) a `question_column` and an optional `context_column`, but not both.''))
   \<and> (a ''using'' = Some u \<and> u ''prompt_template'' = None \<and> u ''question_column'' = None
      \<longrightarrow> create_validation target a = Inl (Exception
            ''Either of `question_column` or `prompt_template` are required.''))
   \<and> (create_validation target a = Inr () \<longleftrightarrow>
        (\<exists>v. a ''using'' = Some v \<and> (v ''prompt_template'' = None) \<noteq> (v ''question_column'' = None)))"
  by (auto simp: create_validation_def split: option.splits)

section \<open>Rendering on the example tables\<close>

text \<open>
  Claim C6. The template \<^verbatim>\<open>Hello {{name}}, you are {{age}}.\<close> compiles to the literal segments
  \<^verbatim>\<open>Hello \<close>, \<^verbatim>\<open>, you are \<close>, \<^verbatim>\<open>.\<close> and the column references \<open>name\<close>, \<open>age\<close>; rendered against the
  row with name \<open>Ada\<close> and age \<open>30\<close> it gives exactly \<^verbatim>\<open>Hello Ada, you are 30.\<close>, which is also
  the prompt that \<^verbatim>\<open>predict\<close> submits.
\<close>

theorem template_round_trip:
  "compile_template ''Hello {{name}}, you are {{age}}.''
     = Inr ([''Hello '', '', you are '', ''.''], [''name'', ''age''])
   \<and> snd (render_template [''Hello '', '', you are '', ''.''] [''name'', ''age''] ada_frame)
     = Inr [''Hello Ada, you are 30.'']
   \<and> snd (build_prompts [''prompt_template'' \<mapsto> ''Hello {{name}}, you are {{age}}.''] Map.empty ada_frame)
     = Inr [''Hello Ada, you are 30.'']
   \<and> predict handler_init example_env echo_submit
        [''prompt_template'' \<mapsto> ''Hello {{name}}, you are {{age}}.''] None Map.empty ada_frame
     = (set_col ada_frame ''__mdb_prompt'' [PStr ''Hello Ada, you are 30.''],
        Inr [''Hello Ada, you are 30.''])"
  unfolding ada_frame_def example_env_def echo_submit_def handler_init_def
  by code_simp

text \<open>
  Claim C8 says that every prompt-building mode coerces the row values with \<^verbatim>\<open>str\<close>. The two
  question modes do; the template mode adds the column to the prompt text as it is, so on
  an integer column \<^verbatim>\<open>predict\<close> raises \<open>TypeError\<close> where the question modes build the
  prompt from the numeral \<open>30\<close>.
\<close>

theorem template_mode_not_coerced:
  "predict handler_init example_env echo_submit
      [''prompt_template'' \<mapsto> ''Age: {{age}}''] None Map.empty age_frame
     = (set_col age_frame ''__mdb_prompt'' [PStr []], Inl TypeError)
   \<and> predict handler_init example_env echo_submit
      [''question_column'' \<mapsto> ''age''] None Map.empty age_frame
     = (age_frame, Inr [''30''])
   \<and> predict handler_init example_env echo_submit
      [''question_column'' \<mapsto> ''age'', ''context_column'' \<mapsto> ''age''] None Map.empty age_frame
     = (age_frame, Inr [''Context: 30'' @ [newline] @ ''Question: 30'' @ [newline] @ ''Answer: ''])"
  unfolding age_frame_def example_env_def echo_submit_def handler_init_def
  by code_simp



lemma predict_mutates_example:
  "\<not> has_col ada_frame ''__mdb_prompt''
   \<and> fst (predict handler_init example_env echo_submit hello_args None Map.empty ada_frame)
     = \<lparr>nrows = 1,
        cols = [(''name'', [PStr ''Ada'']), (''age'', [PStr ''30'']),
                (''__mdb_prompt'', [PStr ''Hello Ada, you are 30.''])]\<rparr>"
  unfolding ada_frame_def example_env_def echo_submit_def handler_init_def hello_args_def
  by code_simp

theorem create_validation_exclusive_witness:
  "([''using'' \<mapsto> both_args] ''using'' = Some both_args
      \<and> both_args ''prompt_template'' \<noteq> None \<and> both_args ''question_column'' \<noteq> None)
   \<and> create_validation ''answer'' [''using'' \<mapsto> both_args] = Inl (Exception
        ''Please provide either 1) a `prompt_template` or 2) a `question_column` and an optional `context_column`, but not both.'')
   \<and> ([''using'' \<mapsto> Map.empty] ''using'' = Some Map.empty
      \<and> (Map.empty :: args) ''prompt_template'' = None \<and> (Map.empty :: args) ''question_column'' = None)
   \<and> create_validation ''answer'' [''using'' \<mapsto> Map.empty] = Inl (Exception
        ''Either of `question_column` or `prompt_template` are required.'')"
proof -
  have h1: "[''using'' \<mapsto> both_args] ''using'' = Some both_args
      \<and> both_args ''prompt_template'' \<noteq> None \<and> both_args ''question_column'' \<noteq> None"
    by (simp add: both_args_def)
  have h2: "[''using'' \<mapsto> Map.empty] ''using'' = Some Map.empty
      \<and> (Map.empty :: args) ''prompt_template'' = None \<and> (Map.empty :: args) ''question_column'' = None"
    by simp
  note a = create_validation_exclusive
    [where a = "[''using'' \<mapsto> both_args]" and u = both_args and target = "''answer''"]
  note b = create_validation_exclusive
    [where a = "[''using'' \<mapsto> Map.empty]" and u = Map.empty and target = "''answer''"]
  have c1: "create_validation ''answer'' [''using'' \<mapsto> both_args] = Inl (Exception
        ''Please provide either 1) a `prompt_template` or 2) a `question_column` and an optional `context_column`, but not both.'')"
    using conjunct1 [OF a] h1 by (rule mp)
  have c2: "create_validation ''answer'' [''using'' \<mapsto> Map.empty] = Inl (Exception
        ''Either of `question_column` or `prompt_template` are required.'')"
    using conjunct1 [OF conjunct2 [OF b]] h2 by (rule mp)
  have B: "([''using'' \<mapsto> Map.empty] ''using'' = Some Map.empty
      \<and> (Map.empty :: args) ''prompt_template'' = None \<and> (Map.empty :: args) ''question_column'' = None)
   \<and> create_validation ''answer'' [''using'' \<mapsto> Map.empty] = Inl (Exception
        ''Either of `question_column` or `prompt_template` are required.'')"
    using h2 c2 by (rule conjI)
  have CB: "create_validation ''answer'' [''using'' \<mapsto> both_args] = Inl (Exception
        ''Please provide either 1) a `prompt_template` or 2) a `question_column` and an optional `context_column`, but not both.'')
   \<and> ([''using'' \<mapsto> Map.empty] ''using'' = Some Map.empty
      \<and> (Map.empty :: args) ''prompt_template'' = None \<and> (Map.empty :: args) ''question_column'' = None)
   \<and> create_validation ''answer'' [''using'' \<mapsto> Map.empty] = Inl (Exception
        ''Either of `question_column` or `prompt_template` are required.'')"
    using c1 B by (rule conjI)
  show ?thesis using h1 CB by (rule conjI)
qed


text \<open>
  With three placeholders the spans between the first and the last one include the span
  of the middle placeholder itself, which becomes a literal segment.
\<close>

lemma compile_template_three_placeholders:
  "compile_template ''{{a}} and {{b}} and {{c}}!''
     = Inr ([[], '' and '', ''{{b}}'', '' and '', ''!''], [''a'', ''b'', ''c''])"
  by code_simp

end
